theory Spec2Isabelle
  imports
    Main
    "HOL-Library.Char_ord"
    "HOL-Library.List_Lexorder"
    "HOL-Library.Product_Lexorder"
begin

section \<open>The version value (semver.go, type Version)\<close>

text \<open>
  The Go struct has three \<open>int\<close> fields and two \<open>string\<close> fields. No arithmetic is done
  on the integer fields (they are only compared and printed), so they are modelled by
  their values as \<open>int\<close>. A Go string is a sequence of bytes, here a \<open>char list\<close>; with
  \<open>Char_ord\<close> and \<open>List_Lexorder\<close> the order \<open><\<close> on \<open>string\<close> is the byte-wise
  lexicographic order of Go's string comparison.
\<close>

record Version =
  Major :: int
  Minor :: int
  Patch :: int
  PreRelease :: string
  Build :: string

text \<open>The positional composite literal \<open>Version{1, 0, 0, "alpha", ""}\<close> of the Go source.\<close>

abbreviation Version_lit :: "int \<Rightarrow> int \<Rightarrow> int \<Rightarrow> string \<Rightarrow> string \<Rightarrow> Version" where
  "Version_lit ma mi pa pre bld \<equiv>
     \<lparr>Major = ma, Minor = mi, Patch = pa, PreRelease = pre, Build = bld\<rparr>"

section \<open>Library functions the package calls\<close>

subsection \<open>fmt.Sprintf with the verb %d\<close>

definition digit_char :: "nat \<Rightarrow> char" where
  "digit_char d = char_of (48 + d)"

function decimal :: "nat \<Rightarrow> string" where
  "decimal n = (if n < 10 then [digit_char n] else decimal (n div 10) @ [digit_char (n mod 10)])"
  by pat_completeness auto
termination
  by (relation "measure (\<lambda>n. n)") auto

declare decimal.simps [simp del]

definition fmt_d :: "int \<Rightarrow> string" where
  "fmt_d i = (if i < 0 then CHR ''-'' # decimal (nat (- i)) else decimal (nat i))"

subsection \<open>strings.Split with the separator "."\<close>

text \<open>
  \<open>Split_from cur s\<close> scans \<open>s\<close>; \<open>cur\<close> holds, reversed, the bytes read since the last
  separator. The result always has one element more than \<open>s\<close> has separators; for the
  empty string it is the one-element list holding the empty string.
\<close>

fun Split_from :: "string \<Rightarrow> string \<Rightarrow> string list" where
  "Split_from cur [] = [rev cur]"
| "Split_from cur (c # cs) =
     (if c = CHR ''.'' then rev cur # Split_from [] cs else Split_from (c # cur) cs)"

definition Split :: "string \<Rightarrow> string list" where
  "Split s = Split_from [] s"

subsection \<open>strconv.Atoi\<close>

text \<open>
  \<open>Atoi\<close> accepts an optional sign followed by one or more decimal digits, and fails
  (here: \<open>None\<close>) on anything else and on a value outside the range of the platform's
  \<open>int\<close>. The width of \<open>int\<close> (strconv.IntSize, 32 or 64) is the parameter \<open>w\<close>.
  The source reads the returned number only when the error is nil.
\<close>

definition is_digit :: "char \<Rightarrow> bool" where
  "is_digit c = (CHR ''0'' \<le> c \<and> c \<le> CHR ''9'')"

definition digit_val :: "char \<Rightarrow> int" where
  "digit_val c = int (of_char c) - 48"

definition digits_val :: "string \<Rightarrow> int" where
  "digits_val s = foldl (\<lambda>n c. n * 10 + digit_val c) 0 s"

definition parse_digits :: "string \<Rightarrow> int option" where
  "parse_digits s = (if s \<noteq> [] \<and> list_all is_digit s then Some (digits_val s) else None)"

definition Atoi :: "nat \<Rightarrow> string \<Rightarrow> int option" where
  "Atoi w s =
     (case s of
        [] \<Rightarrow> None
      | c # r \<Rightarrow>
          if c = CHR ''-'' then
            (case parse_digits r of
               None \<Rightarrow> None
             | Some n \<Rightarrow> if n \<le> 2 ^ (w - 1) then Some (- n) else None)
          else
            (case parse_digits (if c = CHR ''+'' then r else s) of
               None \<Rightarrow> None
             | Some n \<Rightarrow> if n < 2 ^ (w - 1) then Some n else None))"

section \<open>Rendering (semver.go, String, Short, Core)\<close>

definition String :: "Version \<Rightarrow> string" where
  "String v =
     (let hasPreRelease = (PreRelease v \<noteq> []); hasBuild = (Build v \<noteq> []) in
      if hasPreRelease \<and> hasBuild then
        fmt_d (Major v) @ ''.'' @ fmt_d (Minor v) @ ''.'' @ fmt_d (Patch v) @ ''-'' @ PreRelease v
          @ ''+'' @ Build v
      else if hasPreRelease \<and> \<not> hasBuild then
        fmt_d (Major v) @ ''.'' @ fmt_d (Minor v) @ ''.'' @ fmt_d (Patch v) @ ''-'' @ PreRelease v
      else if \<not> hasPreRelease \<and> hasBuild then
        fmt_d (Major v) @ ''.'' @ fmt_d (Minor v) @ ''.'' @ fmt_d (Patch v) @ ''+'' @ Build v
      else
        fmt_d (Major v) @ ''.'' @ fmt_d (Minor v) @ ''.'' @ fmt_d (Patch v))"

definition Short :: "Version \<Rightarrow> string" where
  "Short v =
     (if PreRelease v \<noteq> [] then
        fmt_d (Major v) @ ''.'' @ fmt_d (Minor v) @ ''.'' @ fmt_d (Patch v) @ ''-'' @ PreRelease v
      else
        fmt_d (Major v) @ ''.'' @ fmt_d (Minor v) @ ''.'' @ fmt_d (Patch v))"

definition Core :: "Version \<Rightarrow> string" where
  "Core v = fmt_d (Major v) @ ''.'' @ fmt_d (Minor v) @ ''.'' @ fmt_d (Patch v)"

section \<open>Equality and precedence (semver.go, Equal, Compare, IsZero, Less)\<close>

definition Equal :: "Version \<Rightarrow> Version \<Rightarrow> bool" where
  "Equal v v2 =
     (Major v = Major v2 \<and> Minor v = Minor v2 \<and> Patch v = Patch v2
      \<and> PreRelease v = PreRelease v2 \<and> Build v = Build v2)"

text \<open>
  Indexing a Go slice outside its bounds panics. The model keeps that branch: a read is
  \<open>Inl IndexOutOfRange\<close> outside the bounds, and \<open>Compare\<close> returns \<open>panic + int\<close>.
\<close>

datatype panic = IndexOutOfRange

definition index :: "'a list \<Rightarrow> nat \<Rightarrow> panic + 'a" where
  "index xs i = (if i < length xs then Inr (xs ! i) else Inl IndexOutOfRange)"

text \<open>The \<open>for\<close> loop of \<open>Compare\<close> from counter \<open>i\<close> on, with the length comparison after it.\<close>

function Compare_loop :: "nat \<Rightarrow> string list \<Rightarrow> string list \<Rightarrow> nat \<Rightarrow> panic + int" where
  "Compare_loop w fields1 fields2 i =
     (if i < length fields1 \<and> i < length fields2 then
        (case index fields1 i of
           Inl e \<Rightarrow> Inl e
         | Inr f1 \<Rightarrow>
            (case index fields2 i of
               Inl e \<Rightarrow> Inl e
             | Inr f2 \<Rightarrow>
                (case Atoi w f1 of
                   Some n1 \<Rightarrow>
                     (case Atoi w f2 of
                        Some n2 \<Rightarrow>
                          if n1 < n2 then Inr (- 1)
                          else if n1 > n2 then Inr 1
                          else Compare_loop w fields1 fields2 (i + 1)
                      | None \<Rightarrow> Inr (- 1))
                 | None \<Rightarrow>
                     (case Atoi w f2 of
                        Some n2 \<Rightarrow> Inr 1
                      | None \<Rightarrow>
                          if f1 < f2 then Inr (- 1)
                          else if f1 > f2 then Inr 1
                          else Compare_loop w fields1 fields2 (i + 1)))))
      else if length fields1 < length fields2 then Inr (- 1)
      else if length fields1 > length fields2 then Inr 1
      else Inr 0)"
  by pat_completeness auto
termination
  by (relation "measure (\<lambda>(w, fields1, fields2, i). length fields1 - i)") auto

declare Compare_loop.simps [simp del]

definition Compare :: "nat \<Rightarrow> Version \<Rightarrow> Version \<Rightarrow> panic + int" where
  "Compare w v v2 =
     (if Major v < Major v2 then Inr (- 1)
      else if Major v > Major v2 then Inr 1
      else if Minor v < Minor v2 then Inr (- 1)
      else if Minor v > Minor v2 then Inr 1
      else if Patch v < Patch v2 then Inr (- 1)
      else if Patch v > Patch v2 then Inr 1
      else if PreRelease v = [] \<and> PreRelease v2 \<noteq> [] then Inr 1
      else if PreRelease v \<noteq> [] \<and> PreRelease v2 = [] then Inr (- 1)
      else Compare_loop w (Split (PreRelease v)) (Split (PreRelease v2)) 0)"

section \<open>Build provenance (commit_hash.go and its second variant, Commit)\<close>

text \<open>
  \<open>debug.ReadBuildInfo\<close> is the input: \<open>None\<close> when it reports no build information,
  otherwise the list of settings (key and value), read in order by the loop.
\<close>

record BuildSetting =
  Key :: string
  Value :: string

record BuildInfo =
  Settings :: "BuildSetting list"

text \<open>One round of the loop of commit_hash.go on the pair (commitHash, dirtyWorkingDirectory).\<close>

definition Commit_setting :: "string \<times> bool \<Rightarrow> BuildSetting \<Rightarrow> string \<times> bool" where
  "Commit_setting st setting =
     (case st of (commitHash, dirtyWorkingDirectory) \<Rightarrow>
        if Key setting = ''vcs.modified'' then (commitHash, Value setting = ''true'')
        else if Key setting = ''vcs.revision'' then
          (if length (Value setting) > 7 then (take 7 (Value setting), dirtyWorkingDirectory)
           else (Value setting, dirtyWorkingDirectory))
        else (commitHash, dirtyWorkingDirectory))"

definition Commit :: "BuildInfo option \<Rightarrow> string" where
  "Commit rbi =
     (case (case rbi of
              Some info \<Rightarrow> foldl Commit_setting ([], False) (Settings info)
            | None \<Rightarrow> ([], False)) of
        (commitHash, dirtyWorkingDirectory) \<Rightarrow>
          if commitHash \<noteq> [] \<and> dirtyWorkingDirectory then
            (if dirtyWorkingDirectory then commitHash @ ''-dirty'' else commitHash)
          else if dirtyWorkingDirectory then ''dirty''
          else [])"

text \<open>The variant of unnamed/part_000: dirtyWorkingDirectory is the setting's string.\<close>

definition Commit_setting_part_000 :: "string \<times> string \<Rightarrow> BuildSetting \<Rightarrow> string \<times> string" where
  "Commit_setting_part_000 st setting =
     (case st of (commitHash, dirtyWorkingDirectory) \<Rightarrow>
        if Key setting = ''vcs.modified'' then (commitHash, Value setting)
        else if Key setting = ''vcs.revision'' then
          (if length (Value setting) > 7 then (take 7 (Value setting), dirtyWorkingDirectory)
           else (Value setting, dirtyWorkingDirectory))
        else (commitHash, dirtyWorkingDirectory))"

definition Commit_part_000 :: "BuildInfo option \<Rightarrow> string" where
  "Commit_part_000 rbi =
     (case (case rbi of
              Some info \<Rightarrow> foldl Commit_setting_part_000 ([], []) (Settings info)
            | None \<Rightarrow> ([], [])) of
        (commitHash, dirtyWorkingDirectory) \<Rightarrow>
          if commitHash \<noteq> [] \<and> dirtyWorkingDirectory \<noteq> [] then commitHash @ ''-dirty''
          else if commitHash \<noteq> [] then commitHash
          else if dirtyWorkingDirectory \<noteq> [] then ''*-dirty''
          else [])"

section \<open>The specification's wording, for comparison with the code\<close>

subsection \<open>The staged precedence algorithm\<close>

text \<open>
  The walk over the two identifier sequences as the specification words it: position by
  position while both sequences last; the integer test \<open>parse\<close> decides between the
  numeric, the mixed and the lexical rule; when one sequence ends first it is the lower.
\<close>

fun walk_spec :: "(string \<Rightarrow> int option) \<Rightarrow> string list \<Rightarrow> string list \<Rightarrow> int" where
  "walk_spec parse [] [] = 0"
| "walk_spec parse [] (y # ys) = - 1"
| "walk_spec parse (x # xs) [] = 1"
| "walk_spec parse (x # xs) (y # ys) =
     (case (parse x, parse y) of
        (Some m, Some n) \<Rightarrow> if m < n then - 1 else if n < m then 1 else walk_spec parse xs ys
      | (Some m, None) \<Rightarrow> - 1
      | (None, Some n) \<Rightarrow> 1
      | (None, None) \<Rightarrow> if x < y then - 1 else if y < x then 1 else walk_spec parse xs ys)"

definition numeric_spec :: "int \<Rightarrow> int \<Rightarrow> int" where
  "numeric_spec m n = (if m < n then - 1 else 1)"

definition compare_spec :: "(string \<Rightarrow> int option) \<Rightarrow> Version \<Rightarrow> Version \<Rightarrow> int" where
  "compare_spec parse a b =
     (if Major a \<noteq> Major b then numeric_spec (Major a) (Major b)
      else if Minor a \<noteq> Minor b then numeric_spec (Minor a) (Minor b)
      else if Patch a \<noteq> Patch b then numeric_spec (Patch a) (Patch b)
      else if PreRelease a = [] \<and> PreRelease b = [] then 0
      else if PreRelease a = [] then 1
      else if PreRelease b = [] then - 1
      else walk_spec parse (Split (PreRelease a)) (Split (PreRelease b)))"

subsection \<open>The rendering grammar\<close>

text \<open>
  \<open>is_decimal_of s i\<close>: the string \<open>s\<close> is the decimal numeral of \<open>i\<close> without padding:
  digits only (after the sign of a negative number), no leading zero except for the
  single digit of zero, and read as a decimal number it gives \<open>i\<close>.
\<close>

definition unpadded :: "string \<Rightarrow> bool" where
  "unpadded s = (s \<noteq> [] \<and> list_all is_digit s \<and> (s = ''0'' \<or> hd s \<noteq> CHR ''0''))"

definition is_decimal_of :: "string \<Rightarrow> int \<Rightarrow> bool" where
  "is_decimal_of s i =
     (if i < 0 then s \<noteq> [] \<and> hd s = CHR ''-'' \<and> unpadded (tl s) \<and> digits_val (tl s) = - i
      else unpadded s \<and> digits_val s = i)"

definition optional_part :: "string \<Rightarrow> string \<Rightarrow> string" where
  "optional_part sep s = (if s = [] then [] else sep @ s)"

section \<open>The precedence key\<close>

text \<open>
  A proof device: every version is mapped to a key in a linear order (lexicographic
  products and lists), such that \<open>Compare\<close> is the three-way comparison of the keys.
  A numeric identifier is keyed below every other one; a version without pre-release
  is keyed above every pre-release of the same triple.
\<close>

definition ident_key :: "nat \<Rightarrow> string \<Rightarrow> nat \<times> int \<times> string" where
  "ident_key w s = (case Atoi w s of Some n \<Rightarrow> (0, n, []) | None \<Rightarrow> (1, 0, s))"

definition pre_key :: "nat \<Rightarrow> string \<Rightarrow> nat \<times> (nat \<times> int \<times> string) list" where
  "pre_key w p = (if p = [] then (1, []) else (0, map (ident_key w) (Split p)))"

definition version_key ::
    "nat \<Rightarrow> Version \<Rightarrow> int \<times> int \<times> int \<times> nat \<times> (nat \<times> int \<times> string) list" where
  "version_key w v = (Major v, Minor v, Patch v, pre_key w (PreRelease v))"

definition three_way :: "'a::linorder \<Rightarrow> 'a \<Rightarrow> int" where
  "three_way x y = (if x < y then - 1 else if y < x then 1 else 0)"

text \<open>The pairs of identifiers at which the loop of \<open>Compare\<close> goes on to the next index.\<close>

definition ident_tie :: "nat \<Rightarrow> string \<Rightarrow> string \<Rightarrow> bool" where
  "ident_tie w s1 s2 =
     (case Atoi w s1 of
        Some n1 \<Rightarrow> (case Atoi w s2 of Some n2 \<Rightarrow> n1 = n2 | None \<Rightarrow> False)
      | None \<Rightarrow> (case Atoi w s2 of Some n2 \<Rightarrow> False | None \<Rightarrow> s1 = s2))"

definition all_digits :: "string \<Rightarrow> bool" where
  "all_digits s = (s \<noteq> [] \<and> list_all is_digit s)"

section \<open>Facts about the library functions\<close>

lemma digit_char_is_digit: "d < 10 \<Longrightarrow> is_digit (digit_char d)"
  by (simp add: is_digit_def digit_char_def less_eq_char_def)

lemma digit_char_val: "d < 10 \<Longrightarrow> digit_val (digit_char d) = int d"
  by (simp add: digit_val_def digit_char_def)

lemma digit_char_zero: "d < 10 \<Longrightarrow> digit_char d = CHR ''0'' \<longleftrightarrow> d = 0"
proof -
  assume d: "d < 10"
  have "digit_char d = CHR ''0'' \<longleftrightarrow> (of_char (digit_char d) :: nat) = of_char (CHR ''0'')"
    by (metis of_char_eq_iff)
  also have "\<dots> \<longleftrightarrow> d = 0"
    using d by (simp add: digit_char_def)
  finally show ?thesis .
qed

lemma digits_val_snoc: "digits_val (s @ [c]) = digits_val s * 10 + digit_val c"
  by (simp add: digits_val_def)

lemma decimal_not_Nil: "decimal n \<noteq> []"
  by (subst decimal.simps) simp

lemma decimal_digits: "list_all is_digit (decimal n)"
proof (induction n rule: decimal.induct)
  case (1 n)
  then show ?case
    by (subst decimal.simps) (simp add: digit_char_is_digit)
qed

lemma decimal_val: "digits_val (decimal n) = int n"
proof (induction n rule: decimal.induct)
  case (1 n)
  show ?case
  proof (cases "n < 10")
    case True
    then show ?thesis
      by (subst decimal.simps) (simp add: digits_val_def digit_char_val)
  next
    case False
    with 1 have "digits_val (decimal (n div 10)) = int (n div 10)"
      by simp
    with False show ?thesis
      by (subst decimal.simps) (simp add: digits_val_snoc digit_char_val zdiv_int zmod_int)
  qed
qed

lemma decimal_hd: "0 < n \<Longrightarrow> hd (decimal n) \<noteq> CHR ''0''"
proof (induction n rule: decimal.induct)
  case (1 n)
  show ?case
  proof (cases "n < 10")
    case True
    with 1(2) show ?thesis
      by (subst decimal.simps) (simp add: digit_char_zero)
  next
    case False
    with 1 have "hd (decimal (n div 10)) \<noteq> CHR ''0''"
      by simp
    with False show ?thesis
      by (subst decimal.simps) (simp add: decimal_not_Nil)
  qed
qed

lemma decimal_0: "decimal 0 = ''0''"
  using digit_char_zero [of 0] by (subst decimal.simps) simp

lemma decimal_unpadded: "unpadded (decimal n)"
proof -
  have "decimal n = ''0'' \<or> hd (decimal n) \<noteq> CHR ''0''"
    by (cases "n = 0") (simp_all add: decimal_hd decimal_0)
  then show ?thesis
    unfolding unpadded_def using decimal_not_Nil decimal_digits by blast
qed

lemma fmt_d_decimal: "is_decimal_of (fmt_d i) i"
  by (simp add: is_decimal_of_def fmt_d_def decimal_unpadded decimal_val)

lemma Atoi_Nil: "Atoi w [] = None"
  by (simp add: Atoi_def)

lemma is_digit_not_sign: "is_digit c \<Longrightarrow> c \<noteq> CHR ''-'' \<and> c \<noteq> CHR ''+''"
  by (auto simp: is_digit_def)

lemma Atoi_all_digits:
  "all_digits s \<Longrightarrow> Atoi w s = (if digits_val s < 2 ^ (w - 1) then Some (digits_val s) else None)"
  by (cases s) (auto simp: all_digits_def Atoi_def parse_digits_def dest: is_digit_not_sign)

section \<open>The loop of Compare\<close>

lemma drop_nth_Cons: "i < length xs \<Longrightarrow> drop i xs = xs ! i # drop (Suc i) xs"
  by (simp add: Cons_nth_drop_Suc)

text \<open>
  From a counter within both slices, the loop and the length comparison after it compute
  the walk over the remaining identifiers, and never read outside a slice.
\<close>

lemma Compare_loop_walk:
  "i \<le> length fields1 \<Longrightarrow> i \<le> length fields2 \<Longrightarrow>
   Compare_loop w fields1 fields2 i = Inr (walk_spec (Atoi w) (drop i fields1) (drop i fields2))"
proof (induction w fields1 fields2 i rule: Compare_loop.induct)
  case (1 w fields1 fields2 i)
  show ?case
  proof (cases "i < length fields1 \<and> i < length fields2")
    case True
    then have d: "drop i fields1 = fields1 ! i # drop (Suc i) fields1"
        "drop i fields2 = fields2 ! i # drop (Suc i) fields2"
      by (simp_all add: drop_nth_Cons)
    from True show ?thesis
      using 1
      by (subst Compare_loop.simps) (auto simp: d index_def split: option.splits)
  next
    case False
    with 1(3,4) show ?thesis
      by (subst Compare_loop.simps) (cases "drop i fields1"; cases "drop i fields2"; auto)
  qed
qed

lemma Compare_loop_tie:
  assumes "i < length fields1" and "i < length fields2"
    and "ident_tie w (fields1 ! i) (fields2 ! i)"
  shows "Compare_loop w fields1 fields2 i = Compare_loop w fields1 fields2 (Suc i)"
  using assms
  by (subst Compare_loop.simps) (auto simp: index_def ident_tie_def split: option.splits)

lemma Compare_loop_skip:
  "i \<le> length fields1 \<Longrightarrow> i \<le> length fields2 \<Longrightarrow>
   list_all2 (ident_tie w) (take i fields1) (take i fields2) \<Longrightarrow>
   Compare_loop w fields1 fields2 0 = Compare_loop w fields1 fields2 i"
proof (induction i)
  case 0
  show ?case by simp
next
  case (Suc i)
  then have lt: "i < length fields1" "i < length fields2"
    by simp_all
  from Suc.prems(3) lt
  have "list_all2 (ident_tie w) (take i fields1) (take i fields2)"
    and "ident_tie w (fields1 ! i) (fields2 ! i)"
    by (simp_all add: take_Suc_conv_app_nth list_all2_appendI list_all2_append)
  with Suc.IH lt show ?case
    by (simp add: Compare_loop_tie)
qed

section \<open>Compare as a comparison of keys\<close>

lemma walk_spec_key:
  "walk_spec (Atoi w) xs ys = three_way (map (ident_key w) xs) (map (ident_key w) ys)"
  by (induction "Atoi w" xs ys rule: walk_spec.induct)
     (auto simp: three_way_def ident_key_def split: option.splits)

lemma Compare_walk: "Compare w a b = Inr (compare_spec (Atoi w) a b)"
  by (auto simp: Compare_def compare_spec_def numeric_spec_def Compare_loop_walk Split_def Atoi_Nil)

lemma compare_spec_key:
  "compare_spec (Atoi w) a b = three_way (version_key w a) (version_key w b)"
  by (auto simp: compare_spec_def numeric_spec_def walk_spec_key version_key_def pre_key_def
      three_way_def Split_def)

lemma Compare_key: "Compare w a b = Inr (three_way (version_key w a) (version_key w b))"
  by (simp add: Compare_walk compare_spec_key)

lemma three_way_antisym: "three_way y x = - three_way x y"
  by (auto simp: three_way_def)

lemma three_way_refl: "three_way x x = 0"
  by (simp add: three_way_def)

lemma three_way_le: "three_way x y \<le> 0 \<longleftrightarrow> x \<le> y"
  by (auto simp: three_way_def)

lemma three_way_range: "three_way x y = - 1 \<or> three_way x y = 0 \<or> three_way x y = 1"
  by (simp add: three_way_def)

section \<open>Claims about the precedence comparator\<close>

text \<open>
  C1. For all versions \<open>a\<close> and \<open>b\<close>, \<open>Compare\<close> returns (without a panic) a value
  among -1, 0 and +1, and that value is the one the staged algorithm of the
  specification computes: Major, Minor and Patch compared numerically in this order,
  the first inequality deciding; on a tie the pre-release rule, with the identifier
  walk \<open>walk_spec\<close> over the two sequences split at the dots, where the integer test is
  \<open>strconv.Atoi\<close>.
\<close>

theorem Compare_staged_algorithm:
  "Compare w a b = Inr (compare_spec (Atoi w) a b)
   \<and> (compare_spec (Atoi w) a b = - 1 \<or> compare_spec (Atoi w) a b = 0
        \<or> compare_spec (Atoi w) a b = 1)"
  using three_way_range [of "version_key w a" "version_key w b"]
  by (simp add: Compare_walk compare_spec_key)

theorem Compare_staged_algorithm_witness:
  "Compare 64 (Version_lit 1 0 0 ''alpha.1'' []) (Version_lit 1 0 0 ''alpha.beta'' []) = Inr (- 1)
   \<and> Compare 64 (Version_lit 1 0 0 ''beta.11'' []) (Version_lit 1 0 0 ''beta.2'' []) = Inr 1
   \<and> Compare 64 (Version_lit 1 0 0 ''alpha'' []) (Version_lit 1 0 0 ''alpha.1'' []) = Inr (- 1)"
proof -
  have "compare_spec (Atoi 64) (Version_lit 1 0 0 ''alpha.1'' [])
          (Version_lit 1 0 0 ''alpha.beta'' []) = - 1"
    and "compare_spec (Atoi 64) (Version_lit 1 0 0 ''beta.11'' [])
          (Version_lit 1 0 0 ''beta.2'' []) = 1"
    and "compare_spec (Atoi 64) (Version_lit 1 0 0 ''alpha'' [])
          (Version_lit 1 0 0 ''alpha.1'' []) = - 1"
    by code_simp+
  then show ?thesis
    using Compare_staged_algorithm [of 64 "Version_lit 1 0 0 ''alpha.1'' []"
        "Version_lit 1 0 0 ''alpha.beta'' []"]
      Compare_staged_algorithm [of 64 "Version_lit 1 0 0 ''beta.11'' []"
        "Version_lit 1 0 0 ''beta.2'' []"]
      Compare_staged_algorithm [of 64 "Version_lit 1 0 0 ''alpha'' []"
        "Version_lit 1 0 0 ''alpha.1'' []"]
    by simp
qed

text \<open>
  C2. The comparator is antisymmetric: for all versions \<open>a\<close> and \<open>b\<close>, the result of
  comparing \<open>a\<close> with \<open>b\<close> is the negation of the result of comparing \<open>b\<close> with \<open>a\<close>;
  in particular every version compares as 0 with itself.
\<close>

theorem Compare_antisymmetric:
  "(\<exists>x. Compare w a b = Inr x \<and> Compare w b a = Inr (- x)) \<and> Compare w a a = Inr 0"
  by (simp add: Compare_key three_way_refl three_way_antisym [of "version_key w b"])

theorem Compare_antisymmetric_witness:
  "Compare 64 (Version_lit 1 0 0 ''rc.1'' []) (Version_lit 1 0 0 ''beta.11'' []) = Inr 1
   \<and> Compare 64 (Version_lit 1 0 0 ''beta.11'' []) (Version_lit 1 0 0 ''rc.1'' []) = Inr (- 1)
   \<and> Compare 64 (Version_lit 1 0 0 ''rc.1'' []) (Version_lit 1 0 0 ''rc.1'' []) = Inr 0"
proof -
  have "Compare 64 (Version_lit 1 0 0 ''rc.1'' []) (Version_lit 1 0 0 ''beta.11'' []) = Inr 1"
    by code_simp
  then show ?thesis
    using Compare_antisymmetric [of 64 "Version_lit 1 0 0 ''rc.1'' []"
        "Version_lit 1 0 0 ''beta.11'' []"]
    by auto
qed

text \<open>
  C3. The induced precedence order is transitive: for all versions \<open>a\<close>, \<open>b\<close> and \<open>c\<close>,
  if comparing \<open>a\<close> with \<open>b\<close> and \<open>b\<close> with \<open>c\<close> both give a result at most 0, then so
  does comparing \<open>a\<close> with \<open>c\<close>.
\<close>

theorem Compare_transitive:
  assumes "Compare w a b = Inr x" and "Compare w b c = Inr y" and "x \<le> 0" and "y \<le> 0"
  shows "\<exists>z. Compare w a c = Inr z \<and> z \<le> 0"
proof -
  from assms have "version_key w a \<le> version_key w b" "version_key w b \<le> version_key w c"
    by (auto simp: Compare_key three_way_le)
  then have "version_key w a \<le> version_key w c"
    by (rule order_trans)
  then show ?thesis
    by (simp add: Compare_key three_way_le)
qed

theorem Compare_transitive_witness:
  "Compare 64 (Version_lit 1 0 0 ''alpha.1'' []) (Version_lit 1 0 0 ''alpha.beta'' []) = Inr (- 1)
   \<and> Compare 64 (Version_lit 1 0 0 ''alpha.beta'' []) (Version_lit 1 0 0 [] []) = Inr (- 1)
   \<and> (\<exists>z. Compare 64 (Version_lit 1 0 0 ''alpha.1'' []) (Version_lit 1 0 0 [] []) = Inr z
          \<and> z \<le> 0)"
proof -
  have ab: "Compare 64 (Version_lit 1 0 0 ''alpha.1'' []) (Version_lit 1 0 0 ''alpha.beta'' [])
      = Inr (- 1)"
    by code_simp
  have bc: "Compare 64 (Version_lit 1 0 0 ''alpha.beta'' []) (Version_lit 1 0 0 [] []) = Inr (- 1)"
    by code_simp
  show ?thesis
    using ab bc Compare_transitive [OF ab bc] by simp
qed

text \<open>
  C4. A version with empty PreRelease has strictly higher precedence than every version
  with the same Major, Minor and Patch and a non-empty PreRelease: \<open>Compare\<close> gives +1
  from the side of the normal release and -1 from the side of the pre-release.
\<close>

theorem Compare_release_above_prerelease:
  assumes "Major a = Major b" and "Minor a = Minor b" and "Patch a = Patch b"
    and "PreRelease a = []" and "PreRelease b \<noteq> []"
  shows "Compare w a b = Inr 1 \<and> Compare w b a = Inr (- 1)"
  using assms by (simp add: Compare_def)

theorem Compare_release_above_prerelease_witness:
  "Compare 64 (Version_lit 1 0 0 [] []) (Version_lit 1 0 0 ''alpha'' []) = Inr 1
   \<and> Compare 64 (Version_lit 1 0 0 ''alpha'' []) (Version_lit 1 0 0 [] []) = Inr (- 1)"
  using Compare_release_above_prerelease [of "Version_lit 1 0 0 [] []"
      "Version_lit 1 0 0 ''alpha'' []" 64]
  by simp

text \<open>
  C5. The Build field is never consulted by the comparator: replacing the Build of
  either argument leaves the result of \<open>Compare\<close> unchanged, and two versions that
  differ only in Build compare as 0.
\<close>

theorem Compare_ignores_Build:
  "Compare w (a\<lparr>Build := x\<rparr>) (b\<lparr>Build := y\<rparr>) = Compare w a b
   \<and> Compare w a (a\<lparr>Build := x\<rparr>) = Inr 0"
  by (simp add: Compare_key version_key_def three_way_def)

theorem Compare_ignores_Build_witness:
  "Compare 64 (Version_lit 1 0 0 [] ''build1'') (Version_lit 1 0 0 [] ''build2'') = Inr 0"
  using Compare_ignores_Build [where w = 64 and a = "Version_lit 1 0 0 [] ''build1''"
      and x = "''build2''"]
  by simp

text \<open>
  C7. \<open>Equal\<close> holds exactly when all five fields are equal (that is, when the two values
  are the same), and it is not the comparator's notion of equality: two versions with
  the same Major, Minor, Patch and PreRelease and different Build are not \<open>Equal\<close>,
  while \<open>Compare\<close> gives 0 for them.
\<close>

theorem Equal_all_fields_not_Compare:
  "(Equal a b \<longleftrightarrow> a = b)
   \<and> (Equal a b \<longleftrightarrow> Major a = Major b \<and> Minor a = Minor b \<and> Patch a = Patch b
        \<and> PreRelease a = PreRelease b \<and> Build a = Build b)
   \<and> (Major a = Major b \<and> Minor a = Minor b \<and> Patch a = Patch b
        \<and> PreRelease a = PreRelease b \<and> Build a \<noteq> Build b
       \<longrightarrow> \<not> Equal a b \<and> Compare w a b = Inr 0)"
  by (auto simp: Equal_def Compare_key version_key_def three_way_def)

theorem Equal_all_fields_not_Compare_witness:
  "\<not> Equal (Version_lit 1 0 0 [] ''b1'') (Version_lit 1 0 0 [] ''b2'')
   \<and> Compare 64 (Version_lit 1 0 0 [] ''b1'') (Version_lit 1 0 0 [] ''b2'') = Inr 0"
  using Equal_all_fields_not_Compare [of "Version_lit 1 0 0 [] ''b1''"
      "Version_lit 1 0 0 [] ''b2''" 64]
  by simp



text \<open>
  C10. The integer test of the pre-release walk is \<open>strconv.Atoi\<close>, bounded by the range
  of the platform's \<open>int\<close>. For two versions tied through Patch, both with a pre-release,
  whose identifiers tie before index \<open>i\<close> and differ in precedence at \<open>i\<close>, where both
  are strings of digits and at least one denotes a number beyond the \<open>int\<close> range: the
  identifier beyond the range fails the parse; if only one is in range, that one is the
  lower; if neither is, the two strings are compared lexically, not by their numbers.
\<close>

theorem Compare_digits_beyond_int_range:
  assumes "Major a = Major b" and "Minor a = Minor b" and "Patch a = Patch b"
    and "PreRelease a \<noteq> []" and "PreRelease b \<noteq> []"
    and "i < length (Split (PreRelease a))" and "i < length (Split (PreRelease b))"
    and "list_all2 (ident_tie w) (take i (Split (PreRelease a))) (take i (Split (PreRelease b)))"
    and "\<not> ident_tie w (Split (PreRelease a) ! i) (Split (PreRelease b) ! i)"
    and "all_digits (Split (PreRelease a) ! i)" and "all_digits (Split (PreRelease b) ! i)"
    and "2 ^ (w - 1) \<le> digits_val (Split (PreRelease a) ! i)
         \<or> 2 ^ (w - 1) \<le> digits_val (Split (PreRelease b) ! i)"
  shows "Compare w a b =
      Inr (if digits_val (Split (PreRelease a) ! i) < 2 ^ (w - 1) then - 1
           else if digits_val (Split (PreRelease b) ! i) < 2 ^ (w - 1) then 1
           else if Split (PreRelease a) ! i < Split (PreRelease b) ! i then - 1 else 1)
    \<and> Atoi w (Split (PreRelease a) ! i) =
        (if digits_val (Split (PreRelease a) ! i) < 2 ^ (w - 1)
         then Some (digits_val (Split (PreRelease a) ! i)) else None)
    \<and> Atoi w (Split (PreRelease b) ! i) =
        (if digits_val (Split (PreRelease b) ! i) < 2 ^ (w - 1)
         then Some (digits_val (Split (PreRelease b) ! i)) else None)"
proof -
  let ?f1 = "Split (PreRelease a)" and ?f2 = "Split (PreRelease b)"
  note p1 = Atoi_all_digits [OF assms(10), of w] and p2 = Atoi_all_digits [OF assms(11), of w]
  have "Compare w a b = Compare_loop w ?f1 ?f2 0"
    using assms(1-5) by (simp add: Compare_def)
  also have "\<dots> = Compare_loop w ?f1 ?f2 i"
    using assms(6-8) by (simp add: Compare_loop_skip)
  also have "\<dots> = Inr (if digits_val (?f1 ! i) < 2 ^ (w - 1) then - 1
           else if digits_val (?f2 ! i) < 2 ^ (w - 1) then 1
           else if ?f1 ! i < ?f2 ! i then - 1 else 1)"
    using assms(6,7,9,12)
    by (subst Compare_loop.simps) (auto simp: index_def ident_tie_def p1 p2)
  finally show ?thesis
    using p1 p2 by simp
qed

theorem Compare_digits_beyond_int_range_witness:
  "digits_val ''9223372036854775808'' < digits_val ''10000000000000000000''
   \<and> Atoi 64 ''9223372036854775808'' = None
   \<and> Compare 64 (Version_lit 1 0 0 ''alpha.9223372036854775808'' [])
        (Version_lit 1 0 0 ''alpha.10000000000000000000'' []) = Inr 1
   \<and> Compare 64 (Version_lit 1 0 0 ''alpha.9223372036854775807'' [])
        (Version_lit 1 0 0 ''alpha.9223372036854775808'' []) = Inr (- 1)"
proof -
  have s: "Split ''alpha.9223372036854775808'' = [''alpha'', ''9223372036854775808'']"
    "Split ''alpha.10000000000000000000'' = [''alpha'', ''10000000000000000000'']"
    "Split ''alpha.9223372036854775807'' = [''alpha'', ''9223372036854775807'']"
    by (simp_all add: Split_def)
  have v: "digits_val ''9223372036854775808'' = 9223372036854775808"
    "digits_val ''10000000000000000000'' = 10000000000000000000"
    "digits_val ''9223372036854775807'' = 9223372036854775807"
    by (simp_all add: digits_val_def digit_val_def)
  have d: "all_digits ''9223372036854775808''" "all_digits ''10000000000000000000''"
    "all_digits ''9223372036854775807''"
    by (simp_all add: all_digits_def is_digit_def)
  have t: "ident_tie 64 ''alpha'' ''alpha''"
    "\<not> ident_tie 64 ''9223372036854775808'' ''10000000000000000000''"
    "\<not> ident_tie 64 ''9223372036854775807'' ''9223372036854775808''"
    by code_simp+
  have l: "\<not> ''9223372036854775808'' < ''10000000000000000000''"
    by simp
  show ?thesis
    using s v d t l
      Compare_digits_beyond_int_range [of "Version_lit 1 0 0 ''alpha.9223372036854775808'' []"
        "Version_lit 1 0 0 ''alpha.10000000000000000000'' []" 1 64]
      Compare_digits_beyond_int_range [of "Version_lit 1 0 0 ''alpha.9223372036854775807'' []"
        "Version_lit 1 0 0 ''alpha.9223372036854775808'' []" 1 64]
    by simp
qed

section \<open>Claims about rendering\<close>

text \<open>
  C8. For every version the three renderers follow the grammar
  MAJOR.MINOR.PATCH[-PRERELEASE][+BUILD]: \<open>Core\<close> is the three numbers, each as its
  decimal numeral without padding, joined by dots; \<open>Short\<close> is \<open>Core\<close> followed by
  "-" and PreRelease exactly when PreRelease is non-empty; \<open>String\<close> is that followed by
  "+" and Build exactly when Build is non-empty; PreRelease and Build appear verbatim.
  For (1, 0, 0, "beta", "0002") they give "1.0.0-beta+0002", "1.0.0-beta" and "1.0.0".
\<close>

theorem renderers_follow_grammar:
  "(\<exists>M m p. is_decimal_of M (Major v) \<and> is_decimal_of m (Minor v) \<and> is_decimal_of p (Patch v)
      \<and> Core v = M @ ''.'' @ m @ ''.'' @ p)
   \<and> Short v = Core v @ optional_part ''-'' (PreRelease v)
   \<and> String v = Core v @ optional_part ''-'' (PreRelease v) @ optional_part ''+'' (Build v)
   \<and> String (Version_lit 1 0 0 ''beta'' ''0002'') = ''1.0.0-beta+0002''
   \<and> Short (Version_lit 1 0 0 ''beta'' ''0002'') = ''1.0.0-beta''
   \<and> Core (Version_lit 1 0 0 ''beta'' ''0002'') = ''1.0.0''"
proof -
  have "\<exists>M m p. is_decimal_of M (Major v) \<and> is_decimal_of m (Minor v) \<and> is_decimal_of p (Patch v)
      \<and> Core v = M @ ''.'' @ m @ ''.'' @ p"
    unfolding Core_def using fmt_d_decimal by blast
  moreover have "Short v = Core v @ optional_part ''-'' (PreRelease v)"
    by (simp add: Short_def Core_def optional_part_def)
  moreover have "String v = Core v @ optional_part ''-'' (PreRelease v) @ optional_part ''+'' (Build v)"
    by (simp add: String_def Core_def optional_part_def Let_def)
  moreover have "String (Version_lit 1 0 0 ''beta'' ''0002'') = ''1.0.0-beta+0002''"
    by code_simp
  moreover have "Short (Version_lit 1 0 0 ''beta'' ''0002'') = ''1.0.0-beta''"
    by code_simp
  moreover have "Core (Version_lit 1 0 0 ''beta'' ''0002'') = ''1.0.0''"
    by code_simp
  ultimately show ?thesis
    by blast
qed

theorem renderers_follow_grammar_witness:
  "Core (Version_lit 12 34 56 ''rc.1'' ''20230101.abc123'') = ''12.34.56''
   \<and> Short (Version_lit 12 34 56 ''rc.1'' ''20230101.abc123'') = ''12.34.56-rc.1''
   \<and> String (Version_lit 12 34 56 ''rc.1'' ''20230101.abc123'') = ''12.34.56-rc.1+20230101.abc123''
   \<and> String (Version_lit 12 34 56 [] ''20230101.abc123'') = ''12.34.56+20230101.abc123''"
proof -
  have c: "Core (Version_lit 12 34 56 ''rc.1'' ''20230101.abc123'') = ''12.34.56''"
    "Core (Version_lit 12 34 56 [] ''20230101.abc123'') = ''12.34.56''"
    by code_simp+
  show ?thesis
    using c renderers_follow_grammar [of "Version_lit 12 34 56 ''rc.1'' ''20230101.abc123''"]
      renderers_follow_grammar [of "Version_lit 12 34 56 [] ''20230101.abc123''"]
    by (simp add: optional_part_def)
qed

section \<open>Claims about build provenance\<close>

text \<open>
  C6. \<open>Commit\<close> is to return the short revision id whenever a revision is present, with a
  suffix when the working directory is modified, and the empty string only when the
  build information holds no provenance. On the settings of a clean build from revision
  0123456789abcdef (vcs.revision set, vcs.modified = "false"), \<open>Commit\<close> of
  commit_hash.go returns the empty string, and the variant of unnamed/part_000 returns
  the revision marked as modified; on a modified tree both return "0123456-dirty".
\<close>

theorem Commit_clean_build:
  "Commit (Some \<lparr>Settings = [\<lparr>Key = ''vcs.revision'', Value = ''0123456789abcdef''\<rparr>,
                            \<lparr>Key = ''vcs.modified'', Value = ''false''\<rparr>]\<rparr>) = []
   \<and> Commit_part_000 (Some \<lparr>Settings = [\<lparr>Key = ''vcs.revision'', Value = ''0123456789abcdef''\<rparr>,
                            \<lparr>Key = ''vcs.modified'', Value = ''false''\<rparr>]\<rparr>) = ''0123456-dirty''
   \<and> Commit (Some \<lparr>Settings = [\<lparr>Key = ''vcs.revision'', Value = ''0123456789abcdef''\<rparr>,
                            \<lparr>Key = ''vcs.modified'', Value = ''true''\<rparr>]\<rparr>) = ''0123456-dirty''
   \<and> Commit_part_000 (Some \<lparr>Settings = [\<lparr>Key = ''vcs.revision'', Value = ''0123456789abcdef''\<rparr>,
                            \<lparr>Key = ''vcs.modified'', Value = ''true''\<rparr>]\<rparr>) = ''0123456-dirty''"
  by (simp add: Commit_def Commit_setting_def Commit_part_000_def Commit_setting_part_000_def)

end
